theory Spec2Isabelle
  imports Main "HOL-Library.Word"
begin

section \<open>The sketch Polar HR Fan as a state machine\<close>

text \<open>
  The sketch \<^verbatim>\<open>Polar_HR_Fan.ino\<close> keeps all of its state in global variables, reads a
  heart rate from a BLE chest strap through callbacks and presses the button of a fan
  through one output pin. The globals become a record, each function of the sketch a
  function from record to record, and everything the sketch does to the outside (pin
  writes, delays, serial output, calls into the BLE stack) is appended to a trace.

  The callbacks run in the task of the BLE stack. Each of them is a function on the
  state. \<^verbatim>\<open>loop\<close> is a pass during which only \<^verbatim>\<open>onResult\<close> is delivered, by the
  blocking scan that \<^verbatim>\<open>startScan\<close> starts, and the other callbacks are applied
  between two passes; \<^verbatim>\<open>loop_async\<close> is a pass with callbacks delivered between its
  statements as well. Time passes only in \<^verbatim>\<open>delay\<close> and in the blocking calls into
  the BLE stack.
\<close>

subsection \<open>Data\<close>

text \<open>\<^verbatim>\<open>enum state {stInit, stIdle, stScanning, stConnected};\<close>\<close>

datatype state = stInit | stIdle | stScanning | stConnected

text \<open>\<^verbatim>\<open>enum fanSpeeds {fsInit, fsOff, fsLow, fsMed, fsHigh};\<close>\<close>

datatype fanSpeeds = fsInit | fsOff | fsLow | fsMed | fsHigh

text \<open>The integer a \<^verbatim>\<open>fanSpeeds\<close> value prints as.\<close>

fun fanSpeedsNum :: "fanSpeeds \<Rightarrow> nat" where
  "fanSpeedsNum fsInit = 0"
| "fanSpeedsNum fsOff = 1"
| "fanSpeedsNum fsLow = 2"
| "fanSpeedsNum fsMed = 3"
| "fanSpeedsNum fsHigh = 4"

text \<open>
  \<^verbatim>\<open>#define FAN_OUT 0\<close>, \<^verbatim>\<open>#define BUTTON_NOT_PRESSED 0\<close>,
  \<^verbatim>\<open>#define BUTTON_PRESSED 1\<close>.
\<close>

abbreviation (input) FAN_OUT :: nat where "FAN_OUT \<equiv> 0"
abbreviation (input) BUTTON_NOT_PRESSED :: nat where "BUTTON_NOT_PRESSED \<equiv> 0"
abbreviation (input) BUTTON_PRESSED :: nat where "BUTTON_PRESSED \<equiv> 1"

text \<open>
  What the sketch does to the outside, one constructor per kind of call. The display is
  one event carrying the three values \<^verbatim>\<open>updateDisplay\<close> renders.
\<close>

datatype event =
    PinMode nat
  | DigitalWrite nat nat
  | Delay nat
  | Blocked nat
  | SerialPrint string
  | SerialPrintNum nat
  | SerialPrintln string
  | SerialPrintlnNum nat
  | SerialPrintlnServiceUUID
  | Display state "8 word" fanSpeeds
  | BLEInit
  | ScanSetup
  | ScanClearResults
  | ScanStart nat bool
  | ScanStop
  | ClientConnect
  | RegisterForNotify
  | WriteNotificationOn

text \<open>
  The globals of the sketch. \<^verbatim>\<open>pBLEScan\<close> is kept as "the pointer is not null".
  \<^verbatim>\<open>millis\<close> is the board's millisecond clock, an \<^verbatim>\<open>unsigned long\<close> of 32 bits.
  \<^verbatim>\<open>fanChangeMs\<close> is the clock value stored inside the object
  \<^verbatim>\<open>msSinceFanChange\<close>.
\<close>

record sketch =
  doConnect :: bool
  connected :: bool
  heartRate :: "8 word"
  newHeartRate :: bool
  pBLEScan :: bool
  myState :: state
  myOldState :: state
  fanSpeed :: fanSpeeds
  fanLastSpeed :: fanSpeeds
  fanChangeMs :: "32 word"
  millis :: "32 word"
  trace :: "event list"

text \<open>
  Modelled from the spec: the type \<^verbatim>\<open>elapsedMillis\<close> of the library header
  \<^verbatim>\<open>elapsedMillis.h\<close>, which the sketch includes and does not contain. It is an
  elapsed-time counter: it reads as the time since its last reset (\<^verbatim>\<open>millis() - ms\<close>
  in unsigned arithmetic) and is reset by assigning 0.
\<close>

definition msSinceFanChange :: "sketch \<Rightarrow> 32 word" where
  "msSinceFanChange s = millis s - fanChangeMs s"

definition resetFanChange :: "sketch \<Rightarrow> sketch" where
  "resetFanChange s = s\<lparr>fanChangeMs := millis s\<rparr>"

definition emit :: "event \<Rightarrow> sketch \<Rightarrow> sketch" where
  "emit ev s = s\<lparr>trace := trace s @ [ev]\<rparr>"

text \<open>\<^verbatim>\<open>delay(n)\<close>: the clock moves on by n milliseconds.\<close>

definition delay :: "nat \<Rightarrow> sketch \<Rightarrow> sketch" where
  "delay n s = emit (Delay n) (s\<lparr>millis := millis s + of_nat n\<rparr>)"

text \<open>A blocking call into the BLE stack that takes n milliseconds.\<close>

definition blocked :: "nat \<Rightarrow> sketch \<Rightarrow> sketch" where
  "blocked n s = emit (Blocked n) (s\<lparr>millis := millis s + of_nat n\<rparr>)"

definition digitalWrite :: "nat \<Rightarrow> nat \<Rightarrow> sketch \<Rightarrow> sketch" where
  "digitalWrite pin v s = emit (DigitalWrite pin v) s"

text \<open>
  What the BLE stack does during one pass of \<^verbatim>\<open>loop\<close>: whether the blocking scan
  reports an advertisement with the heart-rate service, how long the scan blocks, how
  \<^verbatim>\<open>connectToServer\<close> ends and how long it takes.
\<close>

datatype connectOutcome = NotConnected | NoService | NoCharacteristic | ConnectOk

record tickEnv =
  scanFound :: bool
  scanMs :: nat
  connectRes :: connectOutcome
  connectMs :: nat

subsection \<open>Callbacks\<close>

text \<open>\<^verbatim>\<open>MyClientCallback::onDisconnect\<close>.\<close>

definition onDisconnect :: "sketch \<Rightarrow> sketch" where
  "onDisconnect s =
     (let s1 = s\<lparr>connected := False\<rparr>;
          s2 = emit (SerialPrintln ''onDisconnect'') s1
      in s2\<lparr>myState := stIdle\<rparr>)"

text \<open>
  \<^verbatim>\<open>MyAdvertisedDeviceCallbacks::onResult\<close>; the argument says whether the
  advertisement carries the heart-rate service UUID.
\<close>

definition onResult :: "bool \<Rightarrow> sketch \<Rightarrow> sketch" where
  "onResult matches s =
     (if matches then
        (let s1 = emit ScanStop s;
             s2 = s1\<lparr>doConnect := True\<rparr>
         in emit (SerialPrintln ''Device found. Connecting!'') s2)
      else s)"

text \<open>
  \<^verbatim>\<open>heartRateNotifyCallback\<close>: \<^verbatim>\<open>pData\<close> and \<^verbatim>\<open>length\<close> are the byte list.
  The second byte is read only after the length check.
\<close>

definition printBytes :: "8 word list \<Rightarrow> event list" where
  "printBytes pData = concat (map (\<lambda>b. [SerialPrintNum (unat b), SerialPrint '' '']) pData)"

definition heartRateNotifyCallback :: "8 word list \<Rightarrow> sketch \<Rightarrow> sketch" where
  "heartRateNotifyCallback pData s =
     (if length pData < 2 then emit (SerialPrint ''Characteristic data too short'') s
      else
        (let b = pData ! 1;
             s1 = (if unat b > 0 \<and> heartRate s \<noteq> b
                   then s\<lparr>heartRate := b, newHeartRate := True\<rparr> else s);
             s2 = emit (SerialPrint ''Notify callback for characteristic '') s1;
             s3 = s2\<lparr>trace := trace s2 @ printBytes pData\<rparr>
         in emit (SerialPrintln '''') s3))"

subsection \<open>The functions of the sketch\<close>

text \<open>
  \<^verbatim>\<open>updateDisplay\<close>: the rendering is one event; in the connected state the heart rate
  also goes to the serial line.
\<close>

definition updateDisplay :: "sketch \<Rightarrow> sketch" where
  "updateDisplay s =
     (let s1 = emit (Display (myState s) (heartRate s) (fanSpeed s)) s
      in if myState s1 = stConnected
         then emit (SerialPrintlnNum (unat (heartRate s1))) (emit (SerialPrint ''HR: '') s1)
         else s1)"

text \<open>
  \<^verbatim>\<open>startScan\<close>: the scan object is fetched on the first call only; the results are
  cleared and a blocking scan of 5 seconds is started. While it blocks, the stack may
  call \<^verbatim>\<open>onResult\<close>.
\<close>

definition startScan :: "tickEnv \<Rightarrow> sketch \<Rightarrow> sketch" where
  "startScan e s =
     (let s1 = (if \<not> pBLEScan s
                then emit (SerialPrintln ''Starting scan'') (emit ScanSetup (s\<lparr>pBLEScan := True\<rparr>))
                else emit (SerialPrintln ''Re-starting scan'') s);
          s2 = emit ScanClearResults s1;
          s3 = emit (ScanStart 5 False) s2;
          s4 = blocked (scanMs e) s3
      in onResult (scanFound e) s4)"

text \<open>\<^verbatim>\<open>switch (fanSpeed)\<close> in \<^verbatim>\<open>setFanSpeed\<close>; the default leaves \<^verbatim>\<open>presses = 0\<close>.\<close>

fun pressesFor :: "fanSpeeds \<Rightarrow> int" where
  "pressesFor fsOff = 0"
| "pressesFor fsLow = 3"
| "pressesFor fsMed = 2"
| "pressesFor fsHigh = 1"
| "pressesFor fsInit = 0"

text \<open>\<^verbatim>\<open>for (int i=1; i <= presses; i++) { ... }\<close>\<close>

function pressLoop :: "int \<Rightarrow> int \<Rightarrow> sketch \<Rightarrow> sketch" where
  "pressLoop i presses s =
     (if i \<le> presses then
        pressLoop (i + 1) presses
          (digitalWrite FAN_OUT BUTTON_NOT_PRESSED
            (delay 250 (digitalWrite FAN_OUT BUTTON_PRESSED (delay 250 s))))
      else s)"
  by pat_completeness auto
termination
  by (relation "measure (\<lambda>(i, presses, s). nat (presses + 1 - i))") auto

declare pressLoop.simps [simp del]

definition setFanSpeed :: "sketch \<Rightarrow> sketch" where
  "setFanSpeed s =
     (let s1 = digitalWrite FAN_OUT BUTTON_PRESSED s;
          s2 = delay 3000 s1;
          s3 = digitalWrite FAN_OUT BUTTON_NOT_PRESSED s2;
          presses = pressesFor (fanSpeed s3)
      in pressLoop 1 presses s3)"

text \<open>\<^verbatim>\<open>connectToServer\<close>: the result and the state after it.\<close>

definition connectToServer :: "tickEnv \<Rightarrow> sketch \<Rightarrow> bool \<times> sketch" where
  "connectToServer e s =
     (let s1 = blocked (connectMs e) (emit ClientConnect s)
      in case connectRes e of
           NotConnected \<Rightarrow> (False, emit (SerialPrintln '' - Not connected to server'') s1)
         | NoService \<Rightarrow>
             (False, emit SerialPrintlnServiceUUID
                       (emit (SerialPrint ''Failed to find our service UUID: '')
                         (emit (SerialPrintln '' - Connected to server'') s1)))
         | NoCharacteristic \<Rightarrow>
             (False, emit (SerialPrint ''Failed to find our characteristic UUID'')
                       (emit (SerialPrintln '' - Got service'')
                         (emit (SerialPrintln '' - Connected to server'') s1)))
         | ConnectOk \<Rightarrow>
             (True, emit RegisterForNotify
                      (emit (SerialPrintln '' - Found our characteristics'')
                        (emit (SerialPrintln '' - Got service'')
                          (emit (SerialPrintln '' - Connected to server'') s1)))))"

text \<open>The global initialisers, and \<^verbatim>\<open>setup\<close>.\<close>

definition boot :: sketch where
  "boot = \<lparr>doConnect = False, connected = False, heartRate = 0, newHeartRate = False,
           pBLEScan = False, myState = stIdle, myOldState = stInit,
           fanSpeed = fsOff, fanLastSpeed = fsInit, fanChangeMs = 0, millis = 0,
           trace = []\<rparr>"

definition setup_sketch :: "sketch \<Rightarrow> sketch" where
  "setup_sketch s =
     (let s1 = emit (SerialPrintln ''Starting Arduino BLE Client application...'') s;
          s2 = emit (PinMode FAN_OUT) s1;
          s3 = digitalWrite FAN_OUT BUTTON_NOT_PRESSED s2
      in emit BLEInit s3)"

subsection \<open>One pass of \<^verbatim>\<open>loop\<close>, statement by statement\<close>

text \<open>
  \<^verbatim>\<open>if (myState == stIdle) { startScan(); myState == stScanning; }\<close>: the second
  statement is a comparison whose value is dropped, so \<^verbatim>\<open>myState\<close> is not written.
\<close>

definition loop_scan :: "tickEnv \<Rightarrow> sketch \<Rightarrow> sketch" where
  "loop_scan e s = (if myState s = stIdle then startScan e s else s)"

text \<open>\<^verbatim>\<open>if (doConnect == true) { if (connectToServer(...)) {...} else {...} }\<close>\<close>

definition loop_connect :: "tickEnv \<Rightarrow> sketch \<Rightarrow> sketch" where
  "loop_connect e s =
     (if doConnect s then
        (case connectToServer e s of
           (True, s1) \<Rightarrow>
             (let s2 = emit (SerialPrintln ''We are now connected to the BLE Server.'') s1;
                  s3 = emit WriteNotificationOn s2;
                  s4 = s3\<lparr>connected := True\<rparr>;
                  s5 = s4\<lparr>myState := stConnected\<rparr>;
                  s6 = emit ScanStop s5
              in s6\<lparr>doConnect := False\<rparr>)
         | (False, s1) \<Rightarrow>
             emit (SerialPrintln
               ''We have failed to connect to the server; Restart your device to scan for nearby BLE server again.'') s1)
      else s)"

text \<open>\<^verbatim>\<open>if (newHeartRate || (myOldState != myState)) updateDisplay();\<close>\<close>

definition loop_display :: "sketch \<Rightarrow> sketch" where
  "loop_display s =
     (if newHeartRate s \<or> myOldState s \<noteq> myState s then updateDisplay s else s)"

text \<open>
  The choice of \<^verbatim>\<open>fanSpeed\<close>: in the connected state a pending value is taken (the
  flag is cleared) and, if more than 15000 ms have passed since the last fan change, the
  speed follows the thresholds; in every other state the speed is \<^verbatim>\<open>fsOff\<close>.
\<close>

definition loop_decide :: "sketch \<Rightarrow> sketch" where
  "loop_decide s =
     (if myState s = stConnected then
        (if newHeartRate s then
           (let s1 = s\<lparr>newHeartRate := False\<rparr>
            in if msSinceFanChange s1 > 15000 then
                 (if unat (heartRate s1) > 130 then s1\<lparr>fanSpeed := fsHigh\<rparr>
                  else if unat (heartRate s1) > 115 then s1\<lparr>fanSpeed := fsMed\<rparr>
                  else if unat (heartRate s1) > 100 then s1\<lparr>fanSpeed := fsLow\<rparr>
                  else s1\<lparr>fanSpeed := fsOff\<rparr>)
               else s1)
         else s)
      else s\<lparr>fanSpeed := fsOff\<rparr>)"

text \<open>The three values printed on every pass.\<close>

definition loop_report :: "sketch \<Rightarrow> sketch" where
  "loop_report s =
     emit (SerialPrintlnNum (fanSpeedsNum (fanSpeed s)))
       (emit (SerialPrint '' '')
         (emit (SerialPrintNum (fanSpeedsNum (fanLastSpeed s)))
           (emit (SerialPrint '' '')
             (emit (SerialPrintNum (unat (msSinceFanChange s))) s))))"

text \<open>
  \<^verbatim>\<open>if (fanLastSpeed != fanSpeed) { updateDisplay(); setFanSpeed();
  msSinceFanChange = 0; fanLastSpeed = fanSpeed; }\<close>
\<close>

definition loop_fan :: "sketch \<Rightarrow> sketch" where
  "loop_fan s =
     (if fanLastSpeed s \<noteq> fanSpeed s then
        (let s1 = updateDisplay s;
             s2 = setFanSpeed s1;
             s3 = resetFanChange s2
         in s3\<lparr>fanLastSpeed := fanSpeed s3\<rparr>)
      else s)"

text \<open>The state in which \<^verbatim>\<open>loop\<close> reaches the choice of the speed.\<close>

definition loop_before_decide :: "tickEnv \<Rightarrow> sketch \<Rightarrow> sketch" where
  "loop_before_decide e s = loop_display (loop_connect e (loop_scan e s))"

text \<open>The state in which \<^verbatim>\<open>loop\<close> reaches the comparison of the two speeds.\<close>

definition loop_before_fan :: "tickEnv \<Rightarrow> sketch \<Rightarrow> sketch" where
  "loop_before_fan e s = loop_report (loop_decide (loop_before_decide e s))"

definition loop :: "tickEnv \<Rightarrow> sketch \<Rightarrow> sketch" where
  "loop e s =
     (let s1 = loop_fan (loop_before_fan e s);
          s2 = s1\<lparr>myOldState := myState s1\<rparr>
      in delay 1000 s2)"

subsection \<open>A pass with callbacks inside\<close>

text \<open>
  \<^verbatim>\<open>loop\<close> above is a pass during which the BLE task delivers nothing but scan
  results. The task can also deliver a notification or a disconnect while the pass
  runs. \<^verbatim>\<open>loop_async\<close> is the same pass with callbacks delivered at four points:
  after the connect statement (the notifications are armed there), after the display
  statement, after the choice of the speed, and after the fan statement.
\<close>

datatype callback = Notify "8 word list" | Disconnect

fun deliver :: "callback \<Rightarrow> sketch \<Rightarrow> sketch" where
  "deliver (Notify pData) s = heartRateNotifyCallback pData s"
| "deliver Disconnect s = onDisconnect s"

fun deliverAll :: "callback list \<Rightarrow> sketch \<Rightarrow> sketch" where
  "deliverAll [] s = s"
| "deliverAll (c # cs) s = deliverAll cs (deliver c s)"

fun isNotify :: "callback \<Rightarrow> bool" where
  "isNotify (Notify pData) = True"
| "isNotify Disconnect = False"

record passCallbacks =
  afterConnect :: "callback list"
  afterDisplay :: "callback list"
  afterDecide :: "callback list"
  afterFan :: "callback list"

definition noCallbacks :: passCallbacks where
  "noCallbacks = \<lparr>afterConnect = [], afterDisplay = [], afterDecide = [], afterFan = []\<rparr>"

text \<open>The state in which such a pass reaches the choice of the speed.\<close>

definition loop_async_before_decide :: "tickEnv \<Rightarrow> passCallbacks \<Rightarrow> sketch \<Rightarrow> sketch" where
  "loop_async_before_decide e cb s =
     deliverAll (afterDisplay cb)
       (loop_display (deliverAll (afterConnect cb) (loop_connect e (loop_scan e s))))"

text \<open>The state in which it reaches the comparison of the two speeds.\<close>

definition loop_async_before_fan :: "tickEnv \<Rightarrow> passCallbacks \<Rightarrow> sketch \<Rightarrow> sketch" where
  "loop_async_before_fan e cb s =
     deliverAll (afterDecide cb)
       (loop_report (loop_decide (loop_async_before_decide e cb s)))"

definition loop_async :: "tickEnv \<Rightarrow> passCallbacks \<Rightarrow> sketch \<Rightarrow> sketch" where
  "loop_async e cb s =
     (let s1 = deliverAll (afterFan cb) (loop_fan (loop_async_before_fan e cb s));
          s2 = s1\<lparr>myOldState := myState s1\<rparr>
      in delay 1000 s2)"

subsection \<open>Observations and concrete runs\<close>

text \<open>The levels written to the fan pin, in order.\<close>

fun fanLevels :: "event list \<Rightarrow> nat list" where
  "fanLevels [] = []"
| "fanLevels (DigitalWrite pin v # evs) =
     (if pin = FAN_OUT then v # fanLevels evs else fanLevels evs)"
| "fanLevels (ev # evs) = fanLevels evs"

text \<open>One short press of the fan button, as \<^verbatim>\<open>setFanSpeed\<close> issues it.\<close>

definition shortPress :: "event list" where
  "shortPress = [Delay 250, DigitalWrite FAN_OUT BUTTON_PRESSED,
                 Delay 250, DigitalWrite FAN_OUT BUTTON_NOT_PRESSED]"

text \<open>The long press that switches the fan off.\<close>

definition holdOff :: "event list" where
  "holdOff = [DigitalWrite FAN_OUT BUTTON_PRESSED, Delay 3000,
              DigitalWrite FAN_OUT BUTTON_NOT_PRESSED]"

text \<open>
  Two behaviours of the BLE stack during a pass: the scan finds the strap after 2 s and
  the connection is made in 1.5 s; or the scan runs its 5 s and finds nothing.
\<close>

definition envFound :: tickEnv where
  "envFound = \<lparr>scanFound = True, scanMs = 2000, connectRes = ConnectOk, connectMs = 1500\<rparr>"

definition envQuiet :: tickEnv where
  "envQuiet = \<lparr>scanFound = False, scanMs = 5000, connectRes = NotConnected, connectMs = 0\<rparr>"

text \<open>
  A first pass that takes longer: the scan finds the strap at the end of its 5 s and
  the connection takes 11 s. The strap's first notification arrives as soon as the
  notifications are armed, before the pass reaches the choice of the speed.
\<close>

definition envSlow :: tickEnv where
  "envSlow = \<lparr>scanFound = True, scanMs = 5000, connectRes = ConnectOk, connectMs = 11000\<rparr>"

definition cbEarly :: passCallbacks where
  "cbEarly = \<lparr>afterConnect = [Notify [22, 135]], afterDisplay = [],
               afterDecide = [], afterFan = []\<rparr>"

text \<open>The same notification arriving after the choice, and a disconnect after the fan statement.\<close>

definition cbLate :: passCallbacks where
  "cbLate = \<lparr>afterConnect = [], afterDisplay = [],
              afterDecide = [Notify [22, 135]], afterFan = [Disconnect]\<rparr>"

text \<open>The sketch after \<^verbatim>\<open>setup\<close>, and after a first pass that connects.\<close>

definition started :: sketch where
  "started = setup_sketch boot"

definition run_connected :: sketch where
  "run_connected = loop envFound started"

text \<open>Connected, with the value 135 delivered right after the first pass.\<close>

definition run_early135 :: sketch where
  "run_early135 = heartRateNotifyCallback [22, 135] run_connected"

text \<open>Fifteen more passes with nothing happening: 16 s since the fan was last set.\<close>

definition run_settled :: sketch where
  "run_settled = (loop envQuiet ^^ 15) run_connected"

text \<open>Then the strap reports 135, and a pass sets the fan to high.\<close>

definition run_late135 :: sketch where
  "run_late135 = heartRateNotifyCallback [22, 135] run_settled"

definition run_high :: sketch where
  "run_high = loop envQuiet run_late135"

text \<open>Then the link drops and the next pass runs.\<close>

definition run_dropped :: sketch where
  "run_dropped = loop envQuiet (onDisconnect run_high)"

text \<open>The link drops while the value 135 is still pending.\<close>

definition run_stale :: sketch where
  "run_stale = onDisconnect run_early135"

section \<open>Properties\<close>

subsection \<open>Auxiliary facts\<close>

lemmas prim_defs = emit_def delay_def blocked_def digitalWrite_def msSinceFanChange_def resetFanChange_def

lemma pressLoop_stop: "presses < i \<Longrightarrow> pressLoop i presses s = s"
  by (simp add: pressLoop.simps)

lemma pressLoop_step:
  "i \<le> presses \<Longrightarrow> pressLoop i presses s =
     pressLoop (i + 1) presses
       (s\<lparr>millis := millis s + 500, trace := trace s @ shortPress\<rparr>)"
  by (subst pressLoop.simps) (simp add: prim_defs shortPress_def add.commute)

lemma setFanSpeed_eq:
  "setFanSpeed s =
     s\<lparr>millis := millis s + 3000 + 500 * of_nat (nat (pressesFor (fanSpeed s))),
       trace := trace s @ holdOff @ concat (replicate (nat (pressesFor (fanSpeed s))) shortPress)\<rparr>"
  by (cases "fanSpeed s")
     (simp_all add: setFanSpeed_def prim_defs holdOff_def pressLoop_stop pressLoop_step
        numeral_3_eq_3 numeral_2_eq_2 add.commute)

lemmas tick_defs = loop_def loop_before_fan_def loop_before_decide_def loop_scan_def
  loop_connect_def loop_display_def loop_decide_def loop_report_def loop_fan_def
  startScan_def onResult_def connectToServer_def updateDisplay_def

lemma started_eq:
  "started = \<lparr>doConnect = False, connected = False, heartRate = 0, newHeartRate = False,
    pBLEScan = False, myState = stIdle, myOldState = stInit,
    fanSpeed = fsOff, fanLastSpeed = fsInit, fanChangeMs = 0, millis = 0,
    trace =
      [SerialPrintln ''Starting Arduino BLE Client application...'',
       PinMode FAN_OUT, DigitalWrite FAN_OUT BUTTON_NOT_PRESSED, BLEInit]\<rparr>"
  by (simp add: started_def setup_sketch_def boot_def prim_defs)

lemma run_connected_eq:
  "run_connected = \<lparr>doConnect = False, connected = True, heartRate = 0, newHeartRate = False,
    pBLEScan = True, myState = stConnected, myOldState = stConnected,
    fanSpeed = fsOff, fanLastSpeed = fsOff, fanChangeMs = 6500,
    millis = 7500, trace = trace run_connected\<rparr>"
  unfolding run_connected_def started_eq envFound_def
  by (simp add: tick_defs prim_defs Let_def setFanSpeed_eq)

lemma loop_settled:
  assumes "myState s = stConnected" and "\<not> doConnect s" and "\<not> newHeartRate s"
    and "myOldState s = stConnected" and "fanLastSpeed s = fanSpeed s"
  shows "loop e s =
     s\<lparr>millis := millis s + 1000,
       trace := trace s @
         [SerialPrintNum (unat (msSinceFanChange s)), SerialPrint '' '',
          SerialPrintNum (fanSpeedsNum (fanLastSpeed s)), SerialPrint '' '',
          SerialPrintlnNum (fanSpeedsNum (fanSpeed s)), Delay 1000]\<rparr>"
  using assms by (simp add: tick_defs prim_defs Let_def)

lemma loop_settled_iter:
  assumes "myState s = stConnected" and "\<not> doConnect s" and "\<not> newHeartRate s"
    and "myOldState s = stConnected" and "fanLastSpeed s = fanSpeed s"
  shows "(loop e ^^ n) s =
     s\<lparr>millis := millis s + 1000 * of_nat n, trace := trace ((loop e ^^ n) s)\<rparr>"
proof (induction n)
  case 0
  show ?case by simp
next
  case (Suc n)
  define r where "r = (loop e ^^ n) s"
  have r: "r = s\<lparr>millis := millis s + 1000 * of_nat n, trace := trace r\<rparr>"
    using Suc.IH by (simp add: r_def)
  have pre: "myState r = stConnected" "\<not> doConnect r" "\<not> newHeartRate r"
    "myOldState r = stConnected" "fanLastSpeed r = fanSpeed r"
    using assms by (subst r, simp)+
  have "(loop e ^^ Suc n) s = loop e r"
    by (simp add: r_def)
  also have "\<dots> = r\<lparr>millis := millis r + 1000, trace := trace (loop e r)\<rparr>"
    by (simp add: loop_settled [OF pre])
  also have "\<dots> = s\<lparr>millis := millis s + 1000 * of_nat (Suc n), trace := trace (loop e r)\<rparr>"
  proof -
    have m: "millis r = millis s + 1000 * of_nat n"
      by (subst r) simp
    have "r\<lparr>millis := a, trace := t\<rparr> = s\<lparr>millis := a, trace := t\<rparr>" for a t
      by (subst r) simp
    then show ?thesis
      by (simp add: m algebra_simps)
  qed
  finally show ?case
    by (simp add: r_def)
qed

lemma run_settled_eq:
  "run_settled = \<lparr>doConnect = False, connected = True, heartRate = 0, newHeartRate = False,
    pBLEScan = True, myState = stConnected, myOldState = stConnected,
    fanSpeed = fsOff, fanLastSpeed = fsOff, fanChangeMs = 6500,
    millis = 22500, trace = trace run_settled\<rparr>"
proof -
  define c where "c = run_connected"
  have c: "c = \<lparr>doConnect = False, connected = True, heartRate = 0, newHeartRate = False,
    pBLEScan = True, myState = stConnected, myOldState = stConnected,
    fanSpeed = fsOff, fanLastSpeed = fsOff, fanChangeMs = 6500,
    millis = 7500, trace = trace c\<rparr>"
    unfolding c_def by (rule run_connected_eq)
  have m: "millis c = 7500"
    by (subst c) simp
  have upd: "c\<lparr>millis := a, trace := t\<rparr> =
    \<lparr>doConnect = False, connected = True, heartRate = 0, newHeartRate = False,
    pBLEScan = True, myState = stConnected, myOldState = stConnected,
    fanSpeed = fsOff, fanLastSpeed = fsOff, fanChangeMs = 6500,
    millis = a, trace = t\<rparr>" for a t
    by (subst c) simp
  have "(loop envQuiet ^^ 15) c =
     c\<lparr>millis := millis c + 1000 * of_nat 15, trace := trace ((loop envQuiet ^^ 15) c)\<rparr>"
    by (rule loop_settled_iter) (subst c, simp)+
  then show ?thesis
    by (simp add: run_settled_def c_def [symmetric] upd m)
qed

lemma fanLevels_append: "fanLevels (xs @ ys) = fanLevels xs @ fanLevels ys"
  by (induction xs rule: fanLevels.induct) auto

text \<open>What the later statements of a pass leave alone.\<close>

lemma fanSpeed_updateDisplay [simp]: "fanSpeed (updateDisplay s) = fanSpeed s"
  by (simp add: updateDisplay_def emit_def Let_def)

lemma myState_updateDisplay [simp]: "myState (updateDisplay s) = myState s"
  by (simp add: updateDisplay_def emit_def Let_def)

lemma fanSpeed_pressLoop [simp]: "fanSpeed (pressLoop i n s) = fanSpeed s"
  by (induction i n s rule: pressLoop.induct)
     (subst pressLoop.simps, simp add: prim_defs)

lemma myState_pressLoop [simp]: "myState (pressLoop i n s) = myState s"
  by (induction i n s rule: pressLoop.induct)
     (subst pressLoop.simps, simp add: prim_defs)

lemma fanSpeed_setFanSpeed [simp]: "fanSpeed (setFanSpeed s) = fanSpeed s"
  by (simp add: setFanSpeed_def prim_defs Let_def)

lemma myState_setFanSpeed [simp]: "myState (setFanSpeed s) = myState s"
  by (simp add: setFanSpeed_def prim_defs Let_def)

lemma fanSpeed_loop_fan [simp]: "fanSpeed (loop_fan s) = fanSpeed s"
  by (simp add: loop_fan_def prim_defs Let_def)

lemma myState_loop_fan [simp]: "myState (loop_fan s) = myState s"
  by (simp add: loop_fan_def prim_defs Let_def)

lemma fanSpeed_loop_report [simp]: "fanSpeed (loop_report s) = fanSpeed s"
  by (simp add: loop_report_def prim_defs)

lemma myState_loop_report [simp]: "myState (loop_report s) = myState s"
  by (simp add: loop_report_def prim_defs)

lemma myState_loop_decide [simp]: "myState (loop_decide s) = myState s"
  by (simp add: loop_decide_def Let_def)

lemma fanSpeed_loop: "fanSpeed (loop e s) = fanSpeed (loop_decide (loop_before_decide e s))"
  by (simp add: loop_def loop_before_fan_def prim_defs Let_def)

lemma myState_loop: "myState (loop e s) = myState (loop_before_decide e s)"
  by (simp add: loop_def loop_before_fan_def prim_defs Let_def)

lemma myState_loop_scan: "myState (loop_scan e s) = myState s"
  by (simp add: loop_scan_def startScan_def onResult_def prim_defs Let_def)

text \<open>No statement before the comparison of the speeds writes the fan pin.\<close>

lemma fanLevels_updateDisplay: "fanLevels (trace (updateDisplay s)) = fanLevels (trace s)"
  by (simp add: updateDisplay_def prim_defs Let_def fanLevels_append)

lemma fanLevels_loop_scan: "fanLevels (trace (loop_scan e s)) = fanLevels (trace s)"
  by (simp add: loop_scan_def startScan_def onResult_def prim_defs Let_def fanLevels_append)

lemma fanLevels_loop_connect: "fanLevels (trace (loop_connect e s)) = fanLevels (trace s)"
  by (cases "connectRes e")
     (simp_all add: loop_connect_def connectToServer_def prim_defs Let_def fanLevels_append)

lemma fanLevels_loop_display: "fanLevels (trace (loop_display s)) = fanLevels (trace s)"
  by (simp add: loop_display_def fanLevels_updateDisplay)

lemma trace_loop_decide: "trace (loop_decide s) = trace s"
  by (simp add: loop_decide_def Let_def)

lemma fanLevels_loop_report: "fanLevels (trace (loop_report s)) = fanLevels (trace s)"
  by (simp add: loop_report_def prim_defs fanLevels_append)

lemma fanLevels_loop_before_fan:
  "fanLevels (trace (loop_before_fan e s)) = fanLevels (trace s)"
  by (simp add: loop_before_fan_def loop_before_decide_def fanLevels_loop_report
      trace_loop_decide fanLevels_loop_display fanLevels_loop_connect fanLevels_loop_scan)

lemma loop_fan_same: "fanLastSpeed s = fanSpeed s \<Longrightarrow> loop_fan s = s"
  by (simp add: loop_fan_def)

lemma loop_fan_change:
  "fanLastSpeed s \<noteq> fanSpeed s \<Longrightarrow>
   loop_fan s =
     (updateDisplay s)\<lparr>
       millis := millis s + 3000 + 500 * of_nat (nat (pressesFor (fanSpeed s))),
       trace := trace (updateDisplay s) @ holdOff @
                concat (replicate (nat (pressesFor (fanSpeed s))) shortPress),
       fanChangeMs := millis s + 3000 + 500 * of_nat (nat (pressesFor (fanSpeed s))),
       fanLastSpeed := fanSpeed s\<rparr>"
  by (simp add: loop_fan_def setFanSpeed_eq resetFanChange_def Let_def)
     (simp add: updateDisplay_def prim_defs Let_def)

text \<open>What the statements before the choice of the speed leave alone.\<close>

lemma frame_updateDisplay:
  "newHeartRate (updateDisplay s) = newHeartRate s
   \<and> fanLastSpeed (updateDisplay s) = fanLastSpeed s
   \<and> heartRate (updateDisplay s) = heartRate s"
  by (simp add: updateDisplay_def emit_def Let_def)

lemma frame_loop_scan:
  "newHeartRate (loop_scan e s) = newHeartRate s
   \<and> fanSpeed (loop_scan e s) = fanSpeed s
   \<and> fanLastSpeed (loop_scan e s) = fanLastSpeed s
   \<and> heartRate (loop_scan e s) = heartRate s"
  by (simp add: loop_scan_def startScan_def onResult_def prim_defs Let_def)

lemma frame_loop_connect:
  "newHeartRate (loop_connect e s) = newHeartRate s
   \<and> fanSpeed (loop_connect e s) = fanSpeed s
   \<and> fanLastSpeed (loop_connect e s) = fanLastSpeed s
   \<and> heartRate (loop_connect e s) = heartRate s"
  by (cases "connectRes e")
     (simp_all add: loop_connect_def connectToServer_def prim_defs Let_def)

lemma frame_loop_display:
  "newHeartRate (loop_display s) = newHeartRate s
   \<and> fanSpeed (loop_display s) = fanSpeed s
   \<and> fanLastSpeed (loop_display s) = fanLastSpeed s
   \<and> heartRate (loop_display s) = heartRate s"
  by (simp add: loop_display_def frame_updateDisplay)

lemma frame_loop_before_decide:
  "newHeartRate (loop_before_decide e s) = newHeartRate s
   \<and> fanSpeed (loop_before_decide e s) = fanSpeed s
   \<and> fanLastSpeed (loop_before_decide e s) = fanLastSpeed s
   \<and> heartRate (loop_before_decide e s) = heartRate s"
  by (simp add: loop_before_decide_def frame_loop_display frame_loop_connect frame_loop_scan)

lemma first_pass_before_fan:
  "fanSpeed (loop_before_fan e started) = fsOff
   \<and> fanLastSpeed (loop_before_fan e started) = fsInit"
proof -
  have "\<not> newHeartRate started" "fanSpeed started = fsOff" "fanLastSpeed started = fsInit"
    by (simp_all add: started_eq)
  then show ?thesis
    by (simp add: loop_before_fan_def loop_report_def loop_decide_def emit_def Let_def
        frame_loop_before_decide)
qed

subsection \<open>Facts about the concrete runs\<close>

lemma run_early135_eq:
  "run_early135 = \<lparr>doConnect = False, connected = True, heartRate = 135, newHeartRate = True,
    pBLEScan = True, myState = stConnected, myOldState = stConnected,
    fanSpeed = fsOff, fanLastSpeed = fsOff, fanChangeMs = 6500,
    millis = 7500, trace = trace run_early135\<rparr>"
  unfolding run_early135_def
  by (subst (1 2) run_connected_eq) (simp add: heartRateNotifyCallback_def prim_defs Let_def)

lemma run_late135_eq:
  "run_late135 = \<lparr>doConnect = False, connected = True, heartRate = 135, newHeartRate = True,
    pBLEScan = True, myState = stConnected, myOldState = stConnected,
    fanSpeed = fsOff, fanLastSpeed = fsOff, fanChangeMs = 6500,
    millis = 22500, trace = trace run_late135\<rparr>"
  unfolding run_late135_def
  by (subst (1 2) run_settled_eq) (simp add: heartRateNotifyCallback_def prim_defs Let_def)

lemma run_stale_eq:
  "run_stale = \<lparr>doConnect = False, connected = False, heartRate = 135, newHeartRate = True,
    pBLEScan = True, myState = stIdle, myOldState = stConnected,
    fanSpeed = fsOff, fanLastSpeed = fsOff, fanChangeMs = 6500,
    millis = 7500, trace = trace run_stale\<rparr>"
  unfolding run_stale_def
  by (subst (1 2) run_early135_eq) (simp add: onDisconnect_def prim_defs Let_def)

lemma run_high_eq:
  "run_high = \<lparr>doConnect = False, connected = True, heartRate = 135, newHeartRate = False,
    pBLEScan = True, myState = stConnected, myOldState = stConnected,
    fanSpeed = fsHigh, fanLastSpeed = fsHigh, fanChangeMs = 26000,
    millis = 27000,
    trace = trace run_late135 @
     [Display stConnected 135 fsOff, SerialPrint ''HR: '',
      SerialPrintlnNum 135, SerialPrintNum 16000, SerialPrint '' '',
      SerialPrintNum 1, SerialPrint '' '', SerialPrintlnNum 4,
      Display stConnected 135 fsHigh, SerialPrint ''HR: '',
      SerialPrintlnNum 135, DigitalWrite FAN_OUT BUTTON_PRESSED, Delay 3000,
      DigitalWrite FAN_OUT BUTTON_NOT_PRESSED,
      Delay 250, DigitalWrite FAN_OUT BUTTON_PRESSED, Delay 250,
      DigitalWrite FAN_OUT BUTTON_NOT_PRESSED, Delay 1000]\<rparr>"
proof -
  define T where "T = trace run_late135"
  have s: "run_late135 = \<lparr>doConnect = False, connected = True, heartRate = 135,
    newHeartRate = True, pBLEScan = True, myState = stConnected, myOldState = stConnected,
    fanSpeed = fsOff, fanLastSpeed = fsOff, fanChangeMs = 6500,
    millis = 22500, trace = T\<rparr>"
    unfolding T_def by (rule run_late135_eq)
  show ?thesis
    unfolding run_high_def s envQuiet_def
    by (simp add: tick_defs prim_defs Let_def setFanSpeed_eq holdOff_def shortPress_def)
qed

subsection \<open>The claims\<close>

text \<open>
  C1. The claim: no two actuation sequences begin less than 15000 ms apart, measured from
  the end of one to the start of the next, also when the second one is caused by losing
  the connection. The comment above the choice of the speed says the same ("don't change
  the fan more than once every 15s"), but the check of \<^verbatim>\<open>msSinceFanChange\<close> stands
  only in the branch that follows the heart rate. In the run below the fan is set to
  high, the link drops, and the next pass presses the button again when
  \<^verbatim>\<open>msSinceFanChange\<close> reads 6000: 1000 ms of \<^verbatim>\<open>delay\<close> and 5000 ms of scanning
  after the end of the first sequence.
\<close>

theorem dwell_not_kept_on_disconnect:
  "fanLastSpeed run_high = fsHigh \<and> msSinceFanChange run_high = 1000
   \<and> myState (onDisconnect run_high) = stIdle
   \<and> msSinceFanChange (loop_before_fan envQuiet (onDisconnect run_high)) = 6000
   \<and> trace run_dropped = trace run_high @
       [SerialPrintln ''onDisconnect'', SerialPrintln ''Re-starting scan'',
        ScanClearResults, ScanStart 5 False, Blocked 5000,
        Display stIdle 135 fsHigh, SerialPrintNum 6000, SerialPrint '' '',
        SerialPrintNum 4, SerialPrint '' '', SerialPrintlnNum 1,
        Display stIdle 135 fsOff, DigitalWrite FAN_OUT BUTTON_PRESSED, Delay 3000,
        DigitalWrite FAN_OUT BUTTON_NOT_PRESSED, Delay 1000]"
proof -
  define T where "T = trace run_high"
  have h: "run_high = \<lparr>doConnect = False, connected = True, heartRate = 135,
    newHeartRate = False, pBLEScan = True, myState = stConnected, myOldState = stConnected,
    fanSpeed = fsHigh, fanLastSpeed = fsHigh, fanChangeMs = 26000,
    millis = 27000, trace = T\<rparr>"
    unfolding T_def by (subst run_high_eq) (simp add: run_high_eq)
  show ?thesis
    unfolding run_dropped_def h envQuiet_def
    by (simp add: onDisconnect_def tick_defs prim_defs Let_def setFanSpeed_eq holdOff_def)
qed

text \<open>
  C2. The claim: the choice of the speed does not look at the dwell timer, and a value
  that arrives before the timer has run out still updates the speed. In the sketch the
  check stands inside the choice: a value that arrives 1000 ms after the last fan change
  is taken (the flag is cleared) and the speed stays as it was.
\<close>

theorem early_sample_is_dropped:
  "myState run_early135 = stConnected \<and> newHeartRate run_early135
   \<and> heartRate run_early135 = 135 \<and> msSinceFanChange run_early135 = 1000
   \<and> fanSpeed (loop_decide run_early135) = fsOff
   \<and> \<not> newHeartRate (loop_decide run_early135)
   \<and> fanSpeed (loop envQuiet run_early135) = fsOff
   \<and> \<not> newHeartRate (loop envQuiet run_early135)"
  by (subst (1 2 3 4 5 6 7 8) run_early135_eq) (simp add: tick_defs prim_defs Let_def)

text \<open>
  C2, as the sketch has it: in the connected state a pending value is always taken; the
  speed is computed from it only if more than 15000 ms have passed since the last fan
  change, and is left as it was otherwise.
\<close>

theorem decide_gated_by_dwell:
  "myState s = stConnected \<and> newHeartRate s \<longrightarrow>
     \<not> newHeartRate (loop_decide s)
     \<and> (\<not> 15000 < msSinceFanChange s \<longrightarrow> fanSpeed (loop_decide s) = fanSpeed s)
     \<and> (15000 < msSinceFanChange s \<longrightarrow>
          fanSpeed (loop_decide s) =
            (if 130 < unat (heartRate s) then fsHigh
             else if 115 < unat (heartRate s) then fsMed
             else if 100 < unat (heartRate s) then fsLow
             else fsOff))"
  by (simp add: loop_decide_def msSinceFanChange_def Let_def)

theorem decide_gated_by_dwell_witness:
  "myState run_early135 = stConnected \<and> newHeartRate run_early135
   \<and> \<not> 15000 < msSinceFanChange run_early135
   \<and> \<not> newHeartRate (loop_decide run_early135)
   \<and> fanSpeed (loop_decide run_early135) = fanSpeed run_early135
   \<and> myState run_late135 = stConnected \<and> newHeartRate run_late135
   \<and> 15000 < msSinceFanChange run_late135
   \<and> \<not> newHeartRate (loop_decide run_late135)
   \<and> fanSpeed (loop_decide run_late135) = fsHigh"
proof -
  have e: "myState run_early135 = stConnected" "newHeartRate run_early135"
    "\<not> 15000 < msSinceFanChange run_early135"
    by (subst run_early135_eq, simp add: msSinceFanChange_def)+
  have l: "myState run_late135 = stConnected" "newHeartRate run_late135"
    "15000 < msSinceFanChange run_late135" "heartRate run_late135 = 135"
    by (subst run_late135_eq, simp add: msSinceFanChange_def)+
  show ?thesis
    using decide_gated_by_dwell [of run_early135] decide_gated_by_dwell [of run_late135] e l
    by simp
qed

text \<open>
  C3. When the thresholds are applied (connected, a value pending, more than 15000 ms
  since the last fan change), the speed depends on the value v alone: above 130 high,
  else above 115 medium, else above 100 low, else off; 101 gives low, 116 medium,
  131 high and 100 off.
\<close>

theorem decide_thresholds:
  "myState s = stConnected \<and> newHeartRate s \<and> 15000 < msSinceFanChange s \<longrightarrow>
     fanSpeed (loop_decide (s\<lparr>heartRate := v\<rparr>)) =
       (if 130 < unat v then fsHigh
        else if 115 < unat v then fsMed
        else if 100 < unat v then fsLow
        else fsOff)
     \<and> fanSpeed (loop_decide (s\<lparr>heartRate := 101\<rparr>)) = fsLow
     \<and> fanSpeed (loop_decide (s\<lparr>heartRate := 116\<rparr>)) = fsMed
     \<and> fanSpeed (loop_decide (s\<lparr>heartRate := 131\<rparr>)) = fsHigh
     \<and> fanSpeed (loop_decide (s\<lparr>heartRate := 100\<rparr>)) = fsOff"
  by (simp add: loop_decide_def msSinceFanChange_def Let_def)

theorem decide_thresholds_witness:
  "myState run_late135 = stConnected \<and> newHeartRate run_late135
   \<and> 15000 < msSinceFanChange run_late135
   \<and> fanSpeed (loop_decide (run_late135\<lparr>heartRate := 130\<rparr>)) = fsMed
   \<and> fanSpeed (loop_decide (run_late135\<lparr>heartRate := 101\<rparr>)) = fsLow
   \<and> fanSpeed (loop_decide (run_late135\<lparr>heartRate := 116\<rparr>)) = fsMed
   \<and> fanSpeed (loop_decide (run_late135\<lparr>heartRate := 131\<rparr>)) = fsHigh
   \<and> fanSpeed (loop_decide (run_late135\<lparr>heartRate := 100\<rparr>)) = fsOff"
proof -
  have l: "myState run_late135 = stConnected" "newHeartRate run_late135"
    "15000 < msSinceFanChange run_late135"
    by (subst run_late135_eq, simp add: msSinceFanChange_def)+
  show ?thesis
    using decide_thresholds [of run_late135 130] l by simp
qed

text \<open>
  C4. For every target speed \<^verbatim>\<open>setFanSpeed\<close> first holds the button for 3000 ms and
  releases it, then issues N short presses (250 ms released, 250 ms pressed), where N
  depends on the target alone: off 0, low 3, medium 2, high 1. The state s it starts
  from is arbitrary, so neither the speed set before nor anything else enters.
\<close>

theorem setFanSpeed_sequence:
  "trace (setFanSpeed (s\<lparr>fanSpeed := fsOff\<rparr>)) =
     trace s @ holdOff @ concat (replicate 0 shortPress)
   \<and> trace (setFanSpeed (s\<lparr>fanSpeed := fsLow\<rparr>)) =
     trace s @ holdOff @ concat (replicate 3 shortPress)
   \<and> trace (setFanSpeed (s\<lparr>fanSpeed := fsMed\<rparr>)) =
     trace s @ holdOff @ concat (replicate 2 shortPress)
   \<and> trace (setFanSpeed (s\<lparr>fanSpeed := fsHigh\<rparr>)) =
     trace s @ holdOff @ concat (replicate 1 shortPress)
   \<and> holdOff = [DigitalWrite FAN_OUT BUTTON_PRESSED, Delay 3000,
                 DigitalWrite FAN_OUT BUTTON_NOT_PRESSED]
   \<and> shortPress = [Delay 250, DigitalWrite FAN_OUT BUTTON_PRESSED,
                    Delay 250, DigitalWrite FAN_OUT BUTTON_NOT_PRESSED]"
  by (simp add: setFanSpeed_eq) (simp add: holdOff_def shortPress_def)

text \<open>
  C5. \<^verbatim>\<open>heartRateNotifyCallback\<close>: a payload of fewer than 2 bytes is reported and
  changes nothing else; a second byte of 0, or equal to the value held, is not taken
  (only the serial line is written); any other second byte becomes the value held and
  sets the flag. After \<^verbatim>\<open>setup\<close> the value held is 0, so the first payload with a
  second byte other than 0 is taken.
\<close>

theorem heartRateNotifyCallback_filter:
  "(length pData < 2 \<longrightarrow>
      heartRateNotifyCallback pData s =
        s\<lparr>trace := trace s @ [SerialPrint ''Characteristic data too short'']\<rparr>)
   \<and> (2 \<le> length pData \<and> (pData ! 1 = 0 \<or> pData ! 1 = heartRate s) \<longrightarrow>
      heartRateNotifyCallback pData s =
        s\<lparr>trace := trace s @ SerialPrint ''Notify callback for characteristic ''
               # printBytes pData @ [SerialPrintln '''']\<rparr>)
   \<and> (2 \<le> length pData \<and> pData ! 1 \<noteq> 0 \<and> pData ! 1 \<noteq> heartRate s \<longrightarrow>
      heartRateNotifyCallback pData s =
        s\<lparr>heartRate := pData ! 1, newHeartRate := True,
          trace := trace s @ SerialPrint ''Notify callback for characteristic ''
               # printBytes pData @ [SerialPrintln '''']\<rparr>)
   \<and> heartRate started = 0
   \<and> (2 \<le> length pData \<and> pData ! 1 \<noteq> 0 \<longrightarrow>
      heartRate (heartRateNotifyCallback pData started) = pData ! 1
      \<and> newHeartRate (heartRateNotifyCallback pData started))"
  by (auto simp: heartRateNotifyCallback_def emit_def Let_def unat_gt_0 started_eq)

theorem heartRateNotifyCallback_filter_witness:
  "length [22 :: 8 word] < 2
   \<and> heartRateNotifyCallback [22] run_early135 =
       run_early135\<lparr>trace := trace run_early135 @
         [SerialPrint ''Characteristic data too short'']\<rparr>
   \<and> heartRateNotifyCallback [22, 0] run_early135 =
       run_early135\<lparr>trace := trace run_early135 @
         [SerialPrint ''Notify callback for characteristic '', SerialPrintNum 22,
          SerialPrint '' '', SerialPrintNum 0, SerialPrint '' '', SerialPrintln '''']\<rparr>
   \<and> heartRate run_early135 = 135
   \<and> heartRateNotifyCallback [22, 135] run_early135 =
       run_early135\<lparr>trace := trace run_early135 @
         [SerialPrint ''Notify callback for characteristic '', SerialPrintNum 22,
          SerialPrint '' '', SerialPrintNum 135, SerialPrint '' '', SerialPrintln '''']\<rparr>
   \<and> heartRateNotifyCallback [22, 72, 1, 2] run_early135 =
       run_early135\<lparr>heartRate := 72, newHeartRate := True,
         trace := trace run_early135 @
         [SerialPrint ''Notify callback for characteristic '', SerialPrintNum 22,
          SerialPrint '' '', SerialPrintNum 72, SerialPrint '' '', SerialPrintNum 1,
          SerialPrint '' '', SerialPrintNum 2, SerialPrint '' '', SerialPrintln '''']\<rparr>
   \<and> heartRate (heartRateNotifyCallback [22, 72] started) = 72
   \<and> newHeartRate (heartRateNotifyCallback [22, 72] started)"
proof -
  have h: "heartRate run_early135 = 135"
    by (subst run_early135_eq) simp
  show ?thesis
    using heartRateNotifyCallback_filter [of "[22]" run_early135]
      heartRateNotifyCallback_filter [of "[22, 0]" run_early135]
      heartRateNotifyCallback_filter [of "[22, 135]" run_early135]
      heartRateNotifyCallback_filter [of "[22, 72, 1, 2]" run_early135]
      heartRateNotifyCallback_filter [of "[22, 72]" run_early135]
    by (simp add: h printBytes_def)
qed

text \<open>
  C6. Whenever the state is not \<^verbatim>\<open>stConnected\<close> at the choice of the speed, the
  speed is set to \<^verbatim>\<open>fsOff\<close>, whatever value is held and whether or not one is
  pending: for the choice alone, for a pass in terms of the state that reaches the
  choice, and for a pass in terms of the state it ends in.
\<close>

theorem not_connected_forces_off:
  "(myState s \<noteq> stConnected \<longrightarrow> fanSpeed (loop_decide s) = fsOff)
   \<and> (myState (loop_before_decide e s) \<noteq> stConnected \<longrightarrow> fanSpeed (loop e s) = fsOff)
   \<and> (myState (loop e s) \<noteq> stConnected \<longrightarrow> fanSpeed (loop e s) = fsOff)"
  by (simp add: fanSpeed_loop myState_loop) (simp add: loop_decide_def)

theorem not_connected_forces_off_witness:
  "myState run_stale \<noteq> stConnected \<and> heartRate run_stale = 135 \<and> newHeartRate run_stale
   \<and> fanSpeed (loop_decide run_stale) = fsOff
   \<and> myState (loop_before_decide envQuiet run_stale) \<noteq> stConnected
   \<and> myState (loop envQuiet run_stale) \<noteq> stConnected
   \<and> fanSpeed (loop envQuiet run_stale) = fsOff"
proof -
  have s: "myState run_stale = stIdle" "heartRate run_stale = 135" "newHeartRate run_stale"
    "\<not> doConnect run_stale"
    by (subst run_stale_eq, simp)+
  have b: "myState (loop_before_decide envQuiet run_stale) = stIdle"
    using s
    by (simp add: loop_before_decide_def loop_display_def loop_connect_def loop_scan_def
        startScan_def onResult_def envQuiet_def prim_defs Let_def)
  show ?thesis
    using not_connected_forces_off [of run_stale envQuiet] s b
    by (simp add: myState_loop)
qed

text \<open>
  C7. The claim: a pass that begins in \<^verbatim>\<open>stIdle\<close> starts a scan and leaves the
  state \<^verbatim>\<open>stScanning\<close>. The scan is started, but the statement after it is
  \<^verbatim>\<open>myState == stScanning;\<close>, a comparison: the state is not written, stays
  \<^verbatim>\<open>stIdle\<close>, and the next pass starts the scan again.
\<close>

theorem idle_never_becomes_scanning:
  "myState (loop_scan e s) = myState s
   \<and> myState started = stIdle
   \<and> myState (loop envQuiet started) = stIdle
   \<and> count_list (trace (loop envQuiet (loop envQuiet started))) (ScanStart 5 False) = 2"
  unfolding started_eq envQuiet_def
  by (simp add: myState_loop_scan) (simp add: tick_defs prim_defs Let_def setFanSpeed_eq holdOff_def)

text \<open>
  C8. The claim: a disconnect notification sets the state to idle and clears the value
  held and the pending flag. \<^verbatim>\<open>onDisconnect\<close> writes \<^verbatim>\<open>connected\<close> and
  \<^verbatim>\<open>myState\<close> only: with 135 held and pending, both are still there afterwards.
\<close>

theorem disconnect_keeps_sample:
  "myState run_early135 = stConnected
   \<and> myState (onDisconnect run_early135) = stIdle
   \<and> heartRate (onDisconnect run_early135) = 135
   \<and> newHeartRate (onDisconnect run_early135)"
  by (subst (1 2 3 4) run_early135_eq) (simp add: onDisconnect_def prim_defs Let_def)

text \<open>
  C8, as the sketch has it: a disconnect notification sets the state to idle and clears
  the \<^verbatim>\<open>connected\<close> flag; the value held and the pending flag are left as they are.
\<close>

theorem onDisconnect_effect:
  "onDisconnect s =
     s\<lparr>connected := False, myState := stIdle,
       trace := trace s @ [SerialPrintln ''onDisconnect'']\<rparr>
   \<and> myState (onDisconnect s) = stIdle
   \<and> \<not> connected (onDisconnect s)
   \<and> heartRate (onDisconnect s) = heartRate s
   \<and> newHeartRate (onDisconnect s) = newHeartRate s"
  by (simp add: onDisconnect_def emit_def)

text \<open>
  C9. The fan is driven only on a change. If the two speeds are equal at the comparison,
  that statement does nothing and the whole pass writes nothing to the fan pin, however
  long ago the last change was (\<^verbatim>\<open>msSinceFanChange\<close> is not read there). If they
  differ, the display is updated, the sequence for the wanted speed is issued, the speed
  set becomes the speed wanted and \<^verbatim>\<open>msSinceFanChange\<close> reads 0; the pass then
  ends with its delay of 1000 ms. After every pass the two speeds are equal.
\<close>

theorem fan_written_only_on_change:
  "(fanLastSpeed s = fanSpeed s \<longrightarrow> loop_fan s = s)
   \<and> (fanLastSpeed s \<noteq> fanSpeed s \<longrightarrow>
        trace (loop_fan s) =
          trace (updateDisplay s) @ holdOff @
            concat (replicate (nat (pressesFor (fanSpeed s))) shortPress)
        \<and> fanSpeed (loop_fan s) = fanSpeed s
        \<and> fanLastSpeed (loop_fan s) = fanSpeed s
        \<and> msSinceFanChange (loop_fan s) = 0)
   \<and> (fanLastSpeed (loop_before_fan e s) = fanSpeed (loop_before_fan e s) \<longrightarrow>
        fanLevels (trace (loop e s)) = fanLevels (trace s))
   \<and> (fanLastSpeed (loop_before_fan e s) \<noteq> fanSpeed (loop_before_fan e s) \<longrightarrow>
        trace (loop e s) =
          trace (updateDisplay (loop_before_fan e s)) @ holdOff @
            concat (replicate (nat (pressesFor (fanSpeed (loop_before_fan e s)))) shortPress) @
            [Delay 1000]
        \<and> msSinceFanChange (loop e s) = 1000)
   \<and> fanLastSpeed (loop e s) = fanSpeed (loop e s)"
proof (intro conjI impI)
  assume "fanLastSpeed s = fanSpeed s"
  then show "loop_fan s = s" by (rule loop_fan_same)
next
  assume d: "fanLastSpeed s \<noteq> fanSpeed s"
  show "trace (loop_fan s) =
          trace (updateDisplay s) @ holdOff @
            concat (replicate (nat (pressesFor (fanSpeed s))) shortPress)"
    by (simp add: loop_fan_change [OF d])
  show "fanSpeed (loop_fan s) = fanSpeed s"
    by simp
  show "fanLastSpeed (loop_fan s) = fanSpeed s"
    by (simp add: loop_fan_change [OF d])
  show "msSinceFanChange (loop_fan s) = 0"
    by (simp add: loop_fan_change [OF d] msSinceFanChange_def)
next
  assume "fanLastSpeed (loop_before_fan e s) = fanSpeed (loop_before_fan e s)"
  then show "fanLevels (trace (loop e s)) = fanLevels (trace s)"
    by (simp add: loop_def loop_fan_same delay_def emit_def Let_def fanLevels_append
        fanLevels_loop_before_fan)
next
  assume d: "fanLastSpeed (loop_before_fan e s) \<noteq> fanSpeed (loop_before_fan e s)"
  show "trace (loop e s) =
          trace (updateDisplay (loop_before_fan e s)) @ holdOff @
            concat (replicate (nat (pressesFor (fanSpeed (loop_before_fan e s)))) shortPress) @
            [Delay 1000]"
    by (simp add: loop_def loop_fan_change [OF d] delay_def emit_def Let_def)
  show "msSinceFanChange (loop e s) = 1000"
    by (simp add: loop_def loop_fan_change [OF d] delay_def emit_def Let_def
        msSinceFanChange_def)
next
  show "fanLastSpeed (loop e s) = fanSpeed (loop e s)"
    by (cases "fanLastSpeed (loop_before_fan e s) = fanSpeed (loop_before_fan e s)")
       (simp_all add: loop_def loop_fan_same loop_fan_change delay_def emit_def Let_def)
qed

theorem fan_written_only_on_change_witness:
  "fanLastSpeed run_connected = fanSpeed run_connected
   \<and> loop_fan run_connected = run_connected
   \<and> fanLastSpeed (loop_before_fan envQuiet run_connected) =
       fanSpeed (loop_before_fan envQuiet run_connected)
   \<and> fanLevels (trace (loop envQuiet run_connected)) = fanLevels (trace run_connected)
   \<and> fanLastSpeed (loop_before_fan envFound started) \<noteq>
       fanSpeed (loop_before_fan envFound started)
   \<and> fanLastSpeed (loop_fan (loop_before_fan envFound started)) = fsOff
   \<and> msSinceFanChange (loop_fan (loop_before_fan envFound started)) = 0
   \<and> msSinceFanChange (loop envFound started) = 1000"
proof -
  have c: "fanLastSpeed run_connected = fsOff" "fanSpeed run_connected = fsOff"
    "myState run_connected = stConnected" "\<not> newHeartRate run_connected"
    by (subst run_connected_eq, simp)+
  have q: "fanLastSpeed (loop_before_fan envQuiet run_connected) = fsOff"
    "fanSpeed (loop_before_fan envQuiet run_connected) = fsOff"
    by (subst run_connected_eq,
        simp add: loop_before_fan_def loop_before_decide_def loop_scan_def loop_connect_def
          loop_display_def loop_decide_def loop_report_def prim_defs)+
  show ?thesis
    using fan_written_only_on_change [of run_connected envQuiet]
      fan_written_only_on_change [of "loop_before_fan envFound started" envFound]
      fan_written_only_on_change [of started envFound]
      c q first_pass_before_fan [of envFound]
    by simp
qed

subsection \<open>Facts about a pass with callbacks inside\<close>

lemma fanLevels_printBytes: "fanLevels (printBytes pData) = []"
  by (induction pData) (simp_all add: printBytes_def)

lemma frame_deliver:
  "fanSpeed (deliver c s) = fanSpeed s
   \<and> fanLastSpeed (deliver c s) = fanLastSpeed s
   \<and> millis (deliver c s) = millis s
   \<and> fanChangeMs (deliver c s) = fanChangeMs s
   \<and> fanLevels (trace (deliver c s)) = fanLevels (trace s)"
  by (cases c)
     (simp_all add: heartRateNotifyCallback_def onDisconnect_def emit_def Let_def
        fanLevels_append fanLevels_printBytes)

lemma frame_deliverAll:
  "fanSpeed (deliverAll cs s) = fanSpeed s
   \<and> fanLastSpeed (deliverAll cs s) = fanLastSpeed s
   \<and> millis (deliverAll cs s) = millis s
   \<and> fanChangeMs (deliverAll cs s) = fanChangeMs s
   \<and> fanLevels (trace (deliverAll cs s)) = fanLevels (trace s)"
  by (induction cs arbitrary: s) (simp_all add: frame_deliver)

lemma newHeartRate_deliver:
  "\<not> isNotify c \<Longrightarrow> newHeartRate (deliver c s) = newHeartRate s"
  by (cases c) (simp_all add: onDisconnect_def emit_def)

lemma newHeartRate_deliverAll:
  "list_all (\<lambda>c. \<not> isNotify c) cs \<Longrightarrow> newHeartRate (deliverAll cs s) = newHeartRate s"
  by (induction cs arbitrary: s) (simp_all add: newHeartRate_deliver)

lemma loop_async_sequential: "loop_async e noCallbacks s = loop e s"
  by (simp add: loop_async_def loop_async_before_fan_def loop_async_before_decide_def
      noCallbacks_def loop_def loop_before_fan_def loop_before_decide_def)

lemma fanSpeed_loop_decide_not_init:
  "fanSpeed s \<noteq> fsInit \<Longrightarrow> fanSpeed (loop_decide s) \<noteq> fsInit"
  by (simp add: loop_decide_def Let_def)

lemma fanLastSpeed_loop_decide: "fanLastSpeed (loop_decide s) = fanLastSpeed s"
  by (simp add: loop_decide_def Let_def)

lemma fanLastSpeed_loop_report: "fanLastSpeed (loop_report s) = fanLastSpeed s"
  by (simp add: loop_report_def emit_def)

lemma frame_loop_async_before_decide:
  "fanSpeed (loop_async_before_decide e cb s) = fanSpeed s
   \<and> fanLastSpeed (loop_async_before_decide e cb s) = fanLastSpeed s
   \<and> fanLevels (trace (loop_async_before_decide e cb s)) = fanLevels (trace s)"
  by (simp add: loop_async_before_decide_def frame_deliverAll frame_loop_display
      frame_loop_connect frame_loop_scan fanLevels_loop_display fanLevels_loop_connect
      fanLevels_loop_scan)

lemma newHeartRate_loop_async_before_decide:
  "list_all (\<lambda>c. \<not> isNotify c) (afterConnect cb @ afterDisplay cb) \<Longrightarrow>
   newHeartRate (loop_async_before_decide e cb s) = newHeartRate s"
  by (simp add: loop_async_before_decide_def newHeartRate_deliverAll frame_loop_display
      frame_loop_connect frame_loop_scan)

lemma first_pass_async_before_fan:
  "fanLastSpeed (loop_async_before_fan e cb started) = fsInit
   \<and> fanSpeed (loop_async_before_fan e cb started) \<noteq> fsInit
   \<and> fanLevels (trace (loop_async_before_fan e cb started)) = [BUTTON_NOT_PRESSED]"
proof -
  have "fanSpeed started \<noteq> fsInit" "fanLastSpeed started = fsInit"
    "fanLevels (trace started) = [BUTTON_NOT_PRESSED]"
    by (simp_all add: started_eq)
  then show ?thesis
    by (simp add: loop_async_before_fan_def frame_deliverAll fanLastSpeed_loop_report
        fanLastSpeed_loop_decide fanSpeed_loop_decide_not_init frame_loop_async_before_decide
        fanLevels_loop_report trace_loop_decide)
qed

lemma first_pass_async_off:
  assumes "\<not> (myState (loop_async_before_decide e cb started) = stConnected
             \<and> newHeartRate (loop_async_before_decide e cb started)
             \<and> 15000 < msSinceFanChange (loop_async_before_decide e cb started))"
  shows "fanSpeed (loop_async_before_fan e cb started) = fsOff"
proof -
  have "fanSpeed (loop_async_before_decide e cb started) = fsOff"
    by (simp add: frame_loop_async_before_decide started_eq)
  with assms have "fanSpeed (loop_decide (loop_async_before_decide e cb started)) = fsOff"
    by (auto simp add: loop_decide_def Let_def msSinceFanChange_def)
  then show ?thesis
    by (simp add: loop_async_before_fan_def frame_deliverAll)
qed

text \<open>
  C10. The claim: the first pass after \<^verbatim>\<open>setup\<close> always runs the sequence for off,
  and does so before any connection exists. The first pass can itself connect, and the
  strap's first notification can arrive between the connect statement and the choice of
  the speed. In the run below the scan and the connection take 16 s, the value 135
  arrives right after the notifications are armed, and the first sequence is the one
  for high: the hold and one short press. And in a first pass that connects with no
  notification at all, the state is already \<^verbatim>\<open>stConnected\<close> when the fan is driven.
\<close>

theorem first_pass_can_set_high:
  "myState (loop_async_before_decide envSlow cbEarly started) = stConnected
   \<and> newHeartRate (loop_async_before_decide envSlow cbEarly started)
   \<and> heartRate (loop_async_before_decide envSlow cbEarly started) = 135
   \<and> msSinceFanChange (loop_async_before_decide envSlow cbEarly started) = 16000
   \<and> fanSpeed (loop_async_before_fan envSlow cbEarly started) = fsHigh
   \<and> fanLevels (trace (loop_async envSlow cbEarly started)) =
       [BUTTON_NOT_PRESSED, BUTTON_PRESSED, BUTTON_NOT_PRESSED,
        BUTTON_PRESSED, BUTTON_NOT_PRESSED]
   \<and> fanLastSpeed (loop_async envSlow cbEarly started) = fsHigh
   \<and> myState (loop_before_fan envFound started) = stConnected
   \<and> fanLevels (trace (loop_before_fan envFound started)) = [BUTTON_NOT_PRESSED]"
proof -
  have d: "loop_async_before_decide envSlow cbEarly started =
    \<lparr>doConnect = False, connected = True, heartRate = 135, newHeartRate = True,
     pBLEScan = True, myState = stConnected, myOldState = stInit,
     fanSpeed = fsOff, fanLastSpeed = fsInit, fanChangeMs = 0, millis = 16000,
     trace = trace (loop_async_before_decide envSlow cbEarly started)\<rparr>"
    unfolding loop_async_before_decide_def started_eq envSlow_def cbEarly_def
    by (simp add: loop_scan_def loop_connect_def loop_display_def startScan_def
        onResult_def connectToServer_def updateDisplay_def heartRateNotifyCallback_def
        prim_defs Let_def)
  have b: "fanSpeed (loop_async_before_fan envSlow cbEarly started) = fsHigh"
    "fanLastSpeed (loop_async_before_fan envSlow cbEarly started) = fsInit"
    unfolding loop_async_before_fan_def
    by (subst d, simp add: cbEarly_def loop_decide_def loop_report_def prim_defs)+
  have f: "loop_fan (loop_async_before_fan envSlow cbEarly started) =
    (updateDisplay (loop_async_before_fan envSlow cbEarly started))\<lparr>
       millis := millis (loop_async_before_fan envSlow cbEarly started) + 3000 + 500 * of_nat (nat (pressesFor fsHigh)),
       trace := trace (updateDisplay (loop_async_before_fan envSlow cbEarly started)) @ holdOff @
                concat (replicate (nat (pressesFor fsHigh)) shortPress),
       fanChangeMs := millis (loop_async_before_fan envSlow cbEarly started) + 3000 + 500 * of_nat (nat (pressesFor fsHigh)),
       fanLastSpeed := fsHigh\<rparr>"
    using loop_fan_change [of "loop_async_before_fan envSlow cbEarly started"] b by simp
  have l: "fanLevels (trace (loop_async_before_fan envSlow cbEarly started)) =
    [BUTTON_NOT_PRESSED]"
    by (simp add: first_pass_async_before_fan)
  have a: "fanLevels (trace (loop_async envSlow cbEarly started)) =
       [BUTTON_NOT_PRESSED, BUTTON_PRESSED, BUTTON_NOT_PRESSED,
        BUTTON_PRESSED, BUTTON_NOT_PRESSED]"
    "fanLastSpeed (loop_async envSlow cbEarly started) = fsHigh"
  proof -
    have af: "afterFan cbEarly = []"
      by (simp add: cbEarly_def)
    show "fanLevels (trace (loop_async envSlow cbEarly started)) =
       [BUTTON_NOT_PRESSED, BUTTON_PRESSED, BUTTON_NOT_PRESSED,
        BUTTON_PRESSED, BUTTON_NOT_PRESSED]"
      by (simp add: loop_async_def f af delay_def emit_def Let_def fanLevels_append
          fanLevels_updateDisplay l holdOff_def shortPress_def)
    show "fanLastSpeed (loop_async envSlow cbEarly started) = fsHigh"
      by (simp add: loop_async_def f af delay_def emit_def Let_def)
  qed
  have c: "myState (loop_before_fan envFound started) = stConnected"
    unfolding started_eq envFound_def
    by (simp add: loop_before_fan_def loop_before_decide_def loop_scan_def loop_connect_def
        loop_display_def startScan_def onResult_def connectToServer_def updateDisplay_def
        prim_defs Let_def)
  have "myState (loop_async_before_decide envSlow cbEarly started) = stConnected"
    "newHeartRate (loop_async_before_decide envSlow cbEarly started)"
    "heartRate (loop_async_before_decide envSlow cbEarly started) = 135"
    "msSinceFanChange (loop_async_before_decide envSlow cbEarly started) = 16000"
    by (subst d, simp add: msSinceFanChange_def)+
  then show ?thesis
    using a b c by (simp add: fanLevels_loop_before_fan started_eq)
qed

text \<open>
  C10, as the sketch has it: the first pass after \<^verbatim>\<open>setup\<close> always runs an
  actuation sequence, because the speed set starts at \<^verbatim>\<open>fsInit\<close>, which the speed
  wanted never is. The sequence is the one for off (the hold of 3000 ms and no short
  press) unless that pass has connected and takes a pending value more than 15000 ms
  after the start; in particular it is the one for off when no notification is
  delivered in that pass before the choice of the speed, as in every pass during which
  no callback is delivered at all.
\<close>

theorem first_pass_switches_fan_off:
  "fanLastSpeed (loop_async_before_fan e cb started) = fsInit
   \<and> fanSpeed (loop_async_before_fan e cb started) \<noteq> fsInit
   \<and> trace (loop_fan (loop_async_before_fan e cb started)) =
       trace (updateDisplay (loop_async_before_fan e cb started)) @ holdOff @
         concat (replicate (nat (pressesFor (fanSpeed (loop_async_before_fan e cb started))))
           shortPress)
   \<and> (\<not> (myState (loop_async_before_decide e cb started) = stConnected
           \<and> newHeartRate (loop_async_before_decide e cb started)
           \<and> 15000 < msSinceFanChange (loop_async_before_decide e cb started)) \<longrightarrow>
        fanSpeed (loop_async_before_fan e cb started) = fsOff
        \<and> trace (loop_fan (loop_async_before_fan e cb started)) =
            trace (updateDisplay (loop_async_before_fan e cb started)) @ holdOff
        \<and> fanLevels (trace (loop_async e cb started)) =
            [BUTTON_NOT_PRESSED, BUTTON_PRESSED, BUTTON_NOT_PRESSED]
        \<and> fanLastSpeed (loop_async e cb started) = fsOff)
   \<and> (list_all (\<lambda>c. \<not> isNotify c) (afterConnect cb @ afterDisplay cb) \<longrightarrow>
        \<not> newHeartRate (loop_async_before_decide e cb started))
   \<and> loop_async e noCallbacks started = loop e started"
proof -
  let ?t = "loop_async_before_fan e cb started"
  let ?d = "loop_async_before_decide e cb started"
  have i: "fanLastSpeed ?t = fsInit" "fanSpeed ?t \<noteq> fsInit"
    "fanLevels (trace ?t) = [BUTTON_NOT_PRESSED]"
    by (simp_all add: first_pass_async_before_fan)
  then have n: "fanLastSpeed ?t \<noteq> fanSpeed ?t"
    by simp
  note f = loop_fan_change [OF n]
  have s: "trace (loop_fan ?t) =
       trace (updateDisplay ?t) @ holdOff @
         concat (replicate (nat (pressesFor (fanSpeed ?t))) shortPress)"
    by (simp add: f)
  have off: "fanSpeed ?t = fsOff
        \<and> trace (loop_fan ?t) = trace (updateDisplay ?t) @ holdOff
        \<and> fanLevels (trace (loop_async e cb started)) =
            [BUTTON_NOT_PRESSED, BUTTON_PRESSED, BUTTON_NOT_PRESSED]
        \<and> fanLastSpeed (loop_async e cb started) = fsOff"
    if h: "\<not> (myState ?d = stConnected \<and> newHeartRate ?d \<and> 15000 < msSinceFanChange ?d)"
  proof -
    have o: "fanSpeed ?t = fsOff"
      using h by (rule first_pass_async_off)
    have "trace (loop_fan ?t) = trace (updateDisplay ?t) @ holdOff"
      by (simp add: s o)
    moreover have "fanLevels (trace (loop_async e cb started)) =
            [BUTTON_NOT_PRESSED, BUTTON_PRESSED, BUTTON_NOT_PRESSED]"
      by (simp add: loop_async_def Let_def delay_def emit_def fanLevels_append
          frame_deliverAll f o fanLevels_updateDisplay i holdOff_def)
    moreover have "fanLastSpeed (loop_async e cb started) = fsOff"
      by (simp add: loop_async_def Let_def delay_def emit_def frame_deliverAll f o)
    ultimately show ?thesis
      using o by simp
  qed
  have p: "\<not> newHeartRate ?d"
    if "list_all (\<lambda>c. \<not> isNotify c) (afterConnect cb @ afterDisplay cb)"
    using that by (simp add: newHeartRate_loop_async_before_decide started_eq)
  show ?thesis
    using i s off p by (simp add: loop_async_sequential)
qed

theorem first_pass_switches_fan_off_witness:
  "list_all (\<lambda>c. \<not> isNotify c) (afterConnect cbLate @ afterDisplay cbLate)
   \<and> \<not> newHeartRate (loop_async_before_decide envFound cbLate started)
   \<and> fanSpeed (loop_async_before_fan envFound cbLate started) = fsOff
   \<and> fanLevels (trace (loop_async envFound cbLate started)) =
       [BUTTON_NOT_PRESSED, BUTTON_PRESSED, BUTTON_NOT_PRESSED]
   \<and> fanLastSpeed (loop_async envFound cbLate started) = fsOff
   \<and> list_all (\<lambda>c. \<not> isNotify c) (afterConnect noCallbacks @ afterDisplay noCallbacks)
   \<and> fanLevels (trace (loop_async envQuiet noCallbacks started)) =
       [BUTTON_NOT_PRESSED, BUTTON_PRESSED, BUTTON_NOT_PRESSED]
   \<and> loop_async envQuiet noCallbacks started = loop envQuiet started"
proof -
  have l: "list_all (\<lambda>c. \<not> isNotify c) (afterConnect cbLate @ afterDisplay cbLate)"
    "list_all (\<lambda>c. \<not> isNotify c) (afterConnect noCallbacks @ afterDisplay noCallbacks)"
    by (simp_all add: cbLate_def noCallbacks_def)
  show ?thesis
    using first_pass_switches_fan_off [of envFound cbLate]
      first_pass_switches_fan_off [of envQuiet noCallbacks] l
    by blast
qed

end
